theory Spec2Isabelle
  imports Main "HOL-Library.Sublist"
begin

section \<open>Python values used by \<open>mongobox.py\<close>\<close>

text \<open>
  Keyword arguments that default to \<open>None\<close> are options. The truth value Python gives
  them (\<open>if self.db_path:\<close>, \<open>port or get_free_port()\<close>) is false for \<open>None\<close>, for the
  empty string and for the integer zero.
\<close>

definition truthy_str :: "string option \<Rightarrow> bool" where
  "truthy_str v = (case v of None \<Rightarrow> False | Some s \<Rightarrow> s \<noteq> [])"

definition truthy_int :: "int option \<Rightarrow> bool" where
  "truthy_int v = (case v of None \<Rightarrow> False | Some n \<Rightarrow> n \<noteq> 0)"

text \<open>\<open>str(n)\<close> for an integer: its decimal digits, with a minus sign when negative.\<close>

fun str_nat :: "nat \<Rightarrow> string" where
  "str_nat n =
     (if n < 10 then [''0123456789'' ! n]
      else str_nat (n div 10) @ [''0123456789'' ! (n mod 10)])"

declare str_nat.simps [simp del]

definition str_int :: "int \<Rightarrow> string" where
  "str_int i = (if i < 0 then CHR ''-'' # str_nat (nat (- i)) else str_nat (nat i))"

text \<open>\<open>sub in s\<close> on strings: \<open>sub\<close> occurs in \<open>s\<close> as a contiguous block.\<close>

fun contains :: "string \<Rightarrow> string \<Rightarrow> bool" where
  "contains sub [] = (sub = [])"
| "contains sub (c # cs) = (prefix sub (c # cs) \<or> contains sub cs)"

section \<open>The operating system as seen by the supervisor\<close>

datatype node = File | Dir | Other

text \<open>The library calls of \<open>mongobox.py\<close> that can raise \<open>OSError\<close>.\<close>

datatype os_op =
    Op_mkdir | Op_mkdtemp | Op_popen | Op_kill | Op_terminate | Op_rmtree
  | Op_tmpfile | Op_check_call

text \<open>Effects the supervisor has on the outside, logged newest first.\<close>

datatype event =
    Ev_mkdir string
  | Ev_mkdtemp string
  | Ev_popen "string list"
  | Ev_poll "int option"
  | Ev_connect int bool
  | Ev_kill
  | Ev_terminate
  | Ev_wait
  | Ev_rmtree string
  | Ev_tmpfile string
  | Ev_check_call "string list"

datatype assertion = Could_not_find_mongod | DB_path_is_a_file

datatype failure =
    Stopped_during_startup int
  | Did_not_start nat
  | Mongorestore_errors "string list"

text \<open>
  Every exception that can leave a method of \<open>MongoBox\<close>:
  \<^item> \<open>AssertionError\<close>: the \<open>assert self.mongod_bin\<close> and the
    \<open>raise AssertionError\<close> of \<open>__init__\<close>;
  \<^item> \<open>Exception\<close>: the three \<open>raise Exception(...)\<close> of \<open>_wait_till_started\<close> and
    \<open>start\<close>, told apart by their message (exit code, delay in milliseconds, error lines);
  \<^item> \<open>CalledProcessError\<close>: \<open>subprocess.check_call\<close> on a non-zero exit status;
  \<^item> \<open>OSError\<close>: a library call that fails; \<open>Socket_error\<close>: a refused connect;
  \<^item> \<open>OverflowError\<close>: \<open>connect\<close> to a port outside 0..65535;
  \<^item> \<open>AttributeError\<close>, \<open>TypeError\<close>: a missing attribute, a \<open>None\<close> path;
  \<^item> \<open>UserError\<close>: any exception raised by the caller's own code.
\<close>

datatype error =
    AssertionError assertion
  | Exception failure
  | CalledProcessError int
  | OSError os_op
  | Socket_error
  | OverflowError
  | AttributeError
  | TypeError
  | UserError string

text \<open>
  The world holds what the supervisor can observe and change: the wall clock in
  milliseconds, the file system (kind and lines of each path), the platform name, and,
  as oracles, how the environment answers: which executable a name resolves to, which
  port is free, which names the next temporary directory and file get, when the child
  has exited by itself and with which code, when it accepts connections on a port,
  the status \<open>wait\<close> reports for a child ended by the signal, the exit status and
  standard output of the restore command, and which library calls raise.
  \<open>time.sleep\<close> is the only call that takes time.
\<close>

record world =
  clock :: nat
  nodes :: "string \<Rightarrow> node option"
  contents :: "string \<Rightarrow> string list"
  platform :: string
  executables :: "string \<Rightarrow> string option"
  free_port :: int
  tmp_dir :: string
  tmp_file :: string
  child_exit :: "nat \<Rightarrow> int option"
  child_accepts :: "int \<Rightarrow> nat \<Rightarrow> bool"
  killed_status :: int
  restore_status :: int
  restore_output :: "string list"
  faulty :: "os_op \<Rightarrow> bool"
  trace :: "event list"

text \<open>
  Modelled from the spec: \<open>utils.find_executable\<close> and \<open>utils.get_free_port\<close> are
  imported by \<open>mongobox.py\<close> and are not part of the sources. The Binary Locator, given
  an executable name, returns a path or signals "not found"; the Port Allocator returns a
  local TCP port number. Both are read from the world.
\<close>

definition find_executable :: "world \<Rightarrow> string \<Rightarrow> string option" where
  "find_executable w name = executables w name"

definition get_free_port :: "world \<Rightarrow> int" where
  "get_free_port w = free_port w"

definition path_exists :: "world \<Rightarrow> string \<Rightarrow> bool" where
  "path_exists w p = (nodes w p \<noteq> None)"

definition isfile :: "world \<Rightarrow> string \<Rightarrow> bool" where
  "isfile w p = (nodes w p = Some File)"

text \<open>
  \<open>os.mkdir(path)\<close> raises when the path exists. The parent directory is taken to
  exist: the call is not made to fail for a missing parent.
\<close>

definition os_mkdir :: "string \<Rightarrow> world \<Rightarrow> (error + unit) \<times> world" where
  "os_mkdir p w =
     (if faulty w Op_mkdir \<or> nodes w p \<noteq> None then (Inl (OSError Op_mkdir), w)
      else (Inr (), w\<lparr>nodes := (nodes w)(p \<mapsto> Dir), trace := Ev_mkdir p # trace w\<rparr>))"

text \<open>\<open>tempfile.mkdtemp()\<close> creates a directory that did not exist and returns its path.\<close>

definition mkdtemp :: "world \<Rightarrow> (error + string) \<times> world" where
  "mkdtemp w =
     (if faulty w Op_mkdtemp \<or> nodes w (tmp_dir w) \<noteq> None then (Inl (OSError Op_mkdtemp), w)
      else (Inr (tmp_dir w),
            w\<lparr>nodes := (nodes w)(tmp_dir w \<mapsto> Dir), trace := Ev_mkdtemp (tmp_dir w) # trace w\<rparr>))"

text \<open>
  \<open>shutil.rmtree(path)\<close> raises unless \<open>path\<close> is an existing directory; it removes the
  directory and everything below it.
\<close>

definition rmtree :: "string option \<Rightarrow> world \<Rightarrow> (error + unit) \<times> world" where
  "rmtree path w =
     (case path of
        None \<Rightarrow> (Inl TypeError, w)
      | Some p \<Rightarrow>
          if faulty w Op_rmtree \<or> nodes w p \<noteq> Some Dir then (Inl (OSError Op_rmtree), w)
          else (Inr (),
                w\<lparr>nodes := (\<lambda>q. if q = p \<or> prefix (p @ ''/'') q then None else nodes w q),
                  trace := Ev_rmtree p # trace w\<rparr>))"

text \<open>A \<open>subprocess.Popen\<close> object: the argument vector and the cached exit status.\<close>

record popen =
  args :: "string list"
  returncode :: "int option"

definition Popen :: "string list \<Rightarrow> world \<Rightarrow> (error + popen) \<times> world" where
  "Popen a w =
     (if faulty w Op_popen then (Inl (OSError Op_popen), w)
      else (Inr \<lparr>args = a, returncode = None\<rparr>, w\<lparr>trace := Ev_popen a # trace w\<rparr>))"

text \<open>\<open>poll()\<close> caches and returns the exit status once the child has exited.\<close>

definition poll :: "popen \<Rightarrow> world \<Rightarrow> popen \<times> world" where
  "poll p w =
     (let rc = (case returncode p of Some c \<Rightarrow> Some c | None \<Rightarrow> child_exit w (clock w))
      in (p\<lparr>returncode := rc\<rparr>, w\<lparr>trace := Ev_poll rc # trace w\<rparr>))"

definition kill :: "popen \<Rightarrow> world \<Rightarrow> (error + unit) \<times> world" where
  "kill p w =
     (if faulty w Op_kill then (Inl (OSError Op_kill), w)
      else (Inr (), w\<lparr>trace := Ev_kill # trace w\<rparr>))"

definition terminate :: "popen \<Rightarrow> world \<Rightarrow> (error + unit) \<times> world" where
  "terminate p w =
     (if faulty w Op_terminate then (Inl (OSError Op_terminate), w)
      else (Inr (), w\<lparr>trace := Ev_terminate # trace w\<rparr>))"

text \<open>
  \<open>wait()\<close> returns once the child is gone and caches its status: the one already
  cached, else the child's own exit code, else the status of a child ended by the signal.
  The signal sent just before is taken to end the child.
\<close>

definition wait :: "popen \<Rightarrow> world \<Rightarrow> popen \<times> world" where
  "wait p w =
     (let rc = (case returncode p of
                  Some c \<Rightarrow> c
                | None \<Rightarrow> (case child_exit w (clock w) of Some c \<Rightarrow> c | None \<Rightarrow> killed_status w))
      in (p\<lparr>returncode := Some rc\<rparr>, w\<lparr>trace := Ev_wait # trace w\<rparr>))"

text \<open>
  \<open>s.connect(('localhost', port))\<close> on a fresh socket: \<open>OverflowError\<close> for a port
  outside 0..65535, success when the child accepts connections now, \<open>socket.error\<close>
  otherwise. Creating and closing the socket are taken to succeed.
\<close>

definition connect :: "int \<Rightarrow> world \<Rightarrow> (error + unit) \<times> world" where
  "connect prt w =
     (if prt < 0 \<or> 65535 < prt then (Inl OverflowError, w\<lparr>trace := Ev_connect prt False # trace w\<rparr>)
      else if child_accepts w prt (clock w)
      then (Inr (), w\<lparr>trace := Ev_connect prt True # trace w\<rparr>)
      else (Inl Socket_error, w\<lparr>trace := Ev_connect prt False # trace w\<rparr>))"

definition sleep :: "nat \<Rightarrow> world \<Rightarrow> world" where
  "sleep ms w = w\<lparr>clock := clock w + ms\<rparr>"

text \<open>
  \<open>tempfile.NamedTemporaryFile(mode = 'w+', delete = False)\<close> creates an empty file that
  did not exist and returns its name.
\<close>

definition NamedTemporaryFile :: "world \<Rightarrow> (error + string) \<times> world" where
  "NamedTemporaryFile w =
     (if faulty w Op_tmpfile \<or> nodes w (tmp_file w) \<noteq> None then (Inl (OSError Op_tmpfile), w)
      else (Inr (tmp_file w),
            w\<lparr>nodes := (nodes w)(tmp_file w \<mapsto> File),
              contents := (contents w)(tmp_file w := []),
              trace := Ev_tmpfile (tmp_file w) # trace w\<rparr>))"

text \<open>
  \<open>subprocess.check_call(cmd, stdout = output_file)\<close>: \<open>OSError\<close> when the command cannot
  be run; otherwise the command writes its standard output to the file, and a non-zero
  exit status raises \<open>CalledProcessError\<close>.
\<close>

definition check_call :: "string list \<Rightarrow> string \<Rightarrow> world \<Rightarrow> (error + unit) \<times> world" where
  "check_call cmd out w =
     (if faulty w Op_check_call then (Inl (OSError Op_check_call), w)
      else
        let w1 = w\<lparr>contents := (contents w)(out := restore_output w),
                   trace := Ev_check_call cmd # trace w\<rparr>
        in if restore_status w \<noteq> 0 then (Inl (CalledProcessError (restore_status w)), w1)
           else (Inr (), w1))"

section \<open>The supervisor\<close>

definition MONGOD_BIN :: string where
  "MONGOD_BIN = ''mongod''"

definition DEFAULT_ARGS :: "string list" where
  "DEFAULT_ARGS =
     [''--quiet'', ''--nohttpinterface'', ''--nounixsocket'', ''--smallfiles'', ''--nojournal'']"

text \<open>
  The attributes of a \<open>MongoBox\<close>. \<open>_db_path_is_temporary\<close> does not exist until \<open>start\<close>
  assigns it: \<open>None\<close> stands for the missing attribute.
\<close>

record mongobox =
  mongod_bin :: string
  port :: int
  log_path :: string
  scripting :: bool
  prealloc :: bool
  db_path :: "string option"
  auth :: bool
  dump_file :: "string option"
  process :: "popen option"
  db_path_is_temporary :: "bool option"

text \<open>
  \<open>__init__\<close> (lines 32-52), its arguments in the order of the signature. The result is
  the new object, or the \<open>AssertionError\<close> raised.
\<close>

definition MongoBox_init ::
  "string option \<Rightarrow> int option \<Rightarrow> string option \<Rightarrow> string option \<Rightarrow> bool \<Rightarrow> bool \<Rightarrow> bool \<Rightarrow>
   string option \<Rightarrow> world \<Rightarrow> error + mongobox" where
  "MongoBox_init mongod_bin0 port0 log_path0 db_path0 scripting0 prealloc0 auth0 dump_file0 w =
     (case (if truthy_str mongod_bin0 then mongod_bin0 else find_executable w MONGOD_BIN) of
        None \<Rightarrow> Inl (AssertionError Could_not_find_mongod)
      | Some bin \<Rightarrow>
          if bin = [] then Inl (AssertionError Could_not_find_mongod)
          else
            let prt = (case port0 of
                         None \<Rightarrow> get_free_port w
                       | Some n \<Rightarrow> if n \<noteq> 0 then n else get_free_port w);
                lg = (case log_path0 of
                        None \<Rightarrow> ''/dev/null''
                      | Some l \<Rightarrow> if l \<noteq> [] then l else ''/dev/null'')
            in
              if (case db_path0 of
                    None \<Rightarrow> False
                  | Some d \<Rightarrow> d \<noteq> [] \<and> path_exists w d \<and> isfile w d)
              then Inl (AssertionError DB_path_is_a_file)
              else Inr \<lparr>mongod_bin = bin, port = prt, log_path = lg, scripting = scripting0,
                        prealloc = prealloc0, db_path = db_path0, auth = auth0,
                        dump_file = dump_file0, process = None,
                        db_path_is_temporary = None\<rparr>)"

text \<open>\<open>running\<close> (lines 124-125).\<close>

definition running :: "mongobox \<Rightarrow> bool" where
  "running s = (process s \<noteq> None)"

text \<open>
  \<open>stop\<close> (lines 105-122). An exception of \<open>kill\<close>, \<open>terminate\<close> or \<open>rmtree\<close> leaves the
  method at once, before \<open>self.process = None\<close>.
\<close>

definition stop :: "mongobox \<Rightarrow> world \<Rightarrow> (error + unit) \<times> mongobox \<times> world" where
  "stop s w =
     (case process s of
        None \<Rightarrow> (Inr (), s, w)
      | Some p \<Rightarrow>
          (case (if platform w = ''darwin'' then kill p w else terminate p w) of
             (Inl e, w1) \<Rightarrow> (Inl e, s, w1)
           | (Inr _, w1) \<Rightarrow>
               (case wait p w1 of
                  (p2, w2) \<Rightarrow>
                    let s2 = s\<lparr>process := Some p2\<rparr> in
                    (case db_path_is_temporary s2 of
                       None \<Rightarrow> (Inl AttributeError, s2, w2)
                     | Some tmp \<Rightarrow>
                         if tmp then
                           (case rmtree (db_path s2) w2 of
                              (Inl e, w3) \<Rightarrow> (Inl e, s2, w3)
                            | (Inr _, w3) \<Rightarrow> (Inr (), s2\<lparr>db_path := None, process := None\<rparr>, w3))
                         else (Inr (), s2\<lparr>process := None\<rparr>, w2)))))"

text \<open>
  One pass through the body of the \<open>while\<close> loop of \<open>_wait_till_started\<close>
  (lines 138-151). \<open>Inr True\<close> is \<open>return True\<close>; \<open>Inr False\<close> is the end of the body
  after \<open>time.sleep(0.25)\<close>, from where the loop tests its condition again; \<open>Inl\<close> is an
  exception, which leaves the method. The counter \<open>attempts\<close> is never read.
\<close>

definition poll_and_connect :: "mongobox \<Rightarrow> world \<Rightarrow> (error + bool) \<times> mongobox \<times> world" where
  "poll_and_connect s w =
     (case process s of
        None \<Rightarrow> (Inl AttributeError, s, w)
      | Some p \<Rightarrow>
          (case poll p w of
             (p1, w1) \<Rightarrow>
               let s1 = s\<lparr>process := Some p1\<rparr> in
               (case returncode p1 of
                  Some c \<Rightarrow> (Inl (Exception (Stopped_during_startup c)), s1, w1)
                | None \<Rightarrow>
                    (case connect (port s1) w1 of
                       (Inr _, w2) \<Rightarrow> (Inr True, s1, w2)
                     | (Inl e, w2) \<Rightarrow>
                         if e = Socket_error then (Inr False, s1, sleep 250 w2)
                         else (Inl e, s1, w2)))))"

text \<open>
  The loop of \<open>_wait_till_started\<close> (lines 137-156) against a fixed deadline: while the
  clock is before the deadline the body runs; once it is not, \<open>stop()\<close> is called, any
  exception it raises is dropped, and the method returns \<open>False\<close>.
\<close>

function wait_loop :: "nat \<Rightarrow> mongobox \<Rightarrow> world \<Rightarrow> (error + bool) \<times> mongobox \<times> world" where
  "wait_loop deadline s w =
     (if clock w < deadline then
        (case poll_and_connect s w of
           (Inl e, s1, w1) \<Rightarrow> (Inl e, s1, w1)
         | (Inr started, s1, w1) \<Rightarrow>
             if started then (Inr True, s1, w1) else wait_loop deadline s1 w1)
      else
        (case stop s w of (_, s1, w1) \<Rightarrow> (Inr False, s1, w1)))"
  by pat_completeness auto
termination
  by (relation "measure (\<lambda>(deadline, s, w). deadline - clock w)")
     (auto simp: poll_and_connect_def poll_def connect_def sleep_def Let_def
       split: option.splits if_splits prod.splits sum.splits)

declare wait_loop.simps [simp del]

text \<open>\<open>_wait_till_started\<close> (lines 134-156); \<open>delay\<close> is in milliseconds.\<close>

definition wait_till_started :: "nat \<Rightarrow> mongobox \<Rightarrow> world \<Rightarrow> (error + bool) \<times> mongobox \<times> world" where
  "wait_till_started delay s w = wait_loop (clock w + delay) s w"

text \<open>
  The directory step of \<open>start\<close> (lines 60-66). It returns the data directory in use.
\<close>

definition prepare_db_path :: "mongobox \<Rightarrow> world \<Rightarrow> (error + string) \<times> mongobox \<times> world" where
  "prepare_db_path s w =
     (case (if truthy_str (db_path s) then db_path s else None) of
        Some d \<Rightarrow>
          if \<not> path_exists w d then
            (case os_mkdir d w of
               (Inl e, w1) \<Rightarrow> (Inl e, s, w1)
             | (Inr _, w1) \<Rightarrow> (Inr d, s\<lparr>db_path_is_temporary := Some False\<rparr>, w1))
          else (Inr d, s\<lparr>db_path_is_temporary := Some False\<rparr>, w)
      | None \<Rightarrow>
          (case mkdtemp w of
             (Inl e, w1) \<Rightarrow> (Inl e, s, w1)
           | (Inr d, w1) \<Rightarrow>
               (Inr d, s\<lparr>db_path := Some d, db_path_is_temporary := Some True\<rparr>, w1)))"

text \<open>The argument vector of the child (lines 68-82), for the data directory \<open>d\<close>.\<close>

definition build_args :: "mongobox \<Rightarrow> string \<Rightarrow> string list" where
  "build_args s d =
     mongod_bin s # DEFAULT_ARGS
       @ [''--dbpath'', d]
       @ [''--port'', str_int (port s)]
       @ [''--logpath'', log_path s]
       @ (if auth s then [''--auth''] else [])
       @ (if \<not> scripting s then [''--noscripting''] else [])
       @ (if \<not> prealloc s then [''--noprealloc''] else [])"

text \<open>
  The first part of \<open>start\<close> (lines 60-92): directory, argument vector, spawn, and the
  wait for readiness with a delay of 15 seconds.
\<close>

definition launch :: "mongobox \<Rightarrow> world \<Rightarrow> (error + unit) \<times> mongobox \<times> world" where
  "launch s w =
     (case prepare_db_path s w of
        (Inl e, s1, w1) \<Rightarrow> (Inl e, s1, w1)
      | (Inr d, s1, w1) \<Rightarrow>
          (case Popen (build_args s1 d) w1 of
             (Inl e, w2) \<Rightarrow> (Inl e, s1, w2)
           | (Inr p, w2) \<Rightarrow>
               let s2 = s1\<lparr>process := Some p\<rparr>; delay = 15000 in
               (case wait_till_started delay s2 w2 of
                  (Inl e, s3, w3) \<Rightarrow> (Inl e, s3, w3)
                | (Inr started, s3, w3) \<Rightarrow>
                    if \<not> started then (Inl (Exception (Did_not_start delay)), s3, w3)
                    else (Inr (), s3, w3))))"

text \<open>
  The second part of \<open>start\<close> (lines 93-103): the import of the dump file. The lines read
  back from the output file are those the restore command wrote to it.
\<close>

definition restore_dump :: "mongobox \<Rightarrow> world \<Rightarrow> (error + unit) \<times> mongobox \<times> world" where
  "restore_dump s w =
     (case (if truthy_str (dump_file s) then dump_file s else None) of
        None \<Rightarrow> (Inr (), s, w)
      | Some f \<Rightarrow>
          (case NamedTemporaryFile w of
             (Inl e, w1) \<Rightarrow> (Inl e, s, w1)
           | (Inr output_file, w1) \<Rightarrow>
               (case check_call [''mongorestore'', ''--port'', str_int (port s), f] output_file w1 of
                  (Inl e, w2) \<Rightarrow> (Inl e, s, w2)
                | (Inr _, w2) \<Rightarrow>
                    let output = contents w2 output_file;
                        errs = filter (contains ''ERROR'') output
                    in if length errs \<noteq> 0 then (Inl (Exception (Mongorestore_errors errs)), s, w2)
                       else (Inr (), s, w2))))"

text \<open>\<open>start\<close> (lines 54-103).\<close>

definition start :: "mongobox \<Rightarrow> world \<Rightarrow> (error + unit) \<times> mongobox \<times> world" where
  "start s w =
     (case launch s w of
        (Inl e, s1, w1) \<Rightarrow> (Inl e, s1, w1)
      | (Inr _, s1, w1) \<Rightarrow> restore_dump s1 w1)"

text \<open>
  \<open>__enter__\<close> and \<open>__exit__\<close> (lines 158-163), and the \<open>with\<close> statement that calls
  them: the body runs only when \<open>__enter__\<close> returned; \<open>__exit__\<close> runs however the body
  ended; as \<open>__exit__\<close> returns \<open>None\<close>, an exception of the body goes on to the caller,
  unless \<open>__exit__\<close> raises one itself.
\<close>

definition MongoBox_enter :: "mongobox \<Rightarrow> world \<Rightarrow> (error + unit) \<times> mongobox \<times> world" where
  "MongoBox_enter s w = start s w"

definition MongoBox_exit :: "mongobox \<Rightarrow> world \<Rightarrow> (error + unit) \<times> mongobox \<times> world" where
  "MongoBox_exit s w = stop s w"

definition with_statement ::
  "mongobox \<Rightarrow> world \<Rightarrow> (mongobox \<Rightarrow> world \<Rightarrow> (error + 'a) \<times> mongobox \<times> world) \<Rightarrow>
   (error + 'a) \<times> mongobox \<times> world" where
  "with_statement s w body =
     (case MongoBox_enter s w of
        (Inl e, s1, w1) \<Rightarrow> (Inl e, s1, w1)
      | (Inr _, s1, w1) \<Rightarrow>
          (case body s1 w1 of
             (r, s2, w2) \<Rightarrow>
               (case MongoBox_exit s2 w2 of
                  (Inl e, s3, w3) \<Rightarrow> (Inl e, s3, w3)
                | (Inr _, s3, w3) \<Rightarrow> (r, s3, w3))))"

section \<open>A concrete environment\<close>

text \<open>
  \<open>world0\<close> is a healthy Linux machine at time 0: \<open>mongod\<close> is on the search path, the
  child accepts connections at once and never exits by itself, no library call fails.
  \<open>box0\<close> is the object \<open>MongoBox()\<close> builds there; \<open>box1\<close> and \<open>world1\<close> are the object
  and the machine after \<open>box0.start()\<close>.
\<close>

definition world0 :: world where
  "world0 =
     \<lparr>clock = 0,
      nodes = (\<lambda>p. if p = ''/tmp'' \<or> p = ''/data'' then Some Dir
                   else if p = ''/etc/hosts'' then Some File else None),
      contents = (\<lambda>p. []),
      platform = ''linux'',
      executables = (\<lambda>n. if n = ''mongod'' then Some ''/usr/bin/mongod'' else None),
      free_port = 27017,
      tmp_dir = ''/tmp/tmpdb'',
      tmp_file = ''/tmp/tmpout'',
      child_exit = (\<lambda>t. None),
      child_accepts = (\<lambda>prt t. True),
      killed_status = - 15,
      restore_status = 0,
      restore_output = [],
      faulty = (\<lambda>op. False),
      trace = []\<rparr>"

definition box0 :: mongobox where
  "box0 =
     \<lparr>mongod_bin = ''/usr/bin/mongod'', port = 27017, log_path = ''/dev/null'',
      scripting = True, prealloc = False, db_path = None, auth = False, dump_file = None,
      process = None, db_path_is_temporary = None\<rparr>"

definition mongod_args :: "string list" where
  "mongod_args =
     [''/usr/bin/mongod'', ''--quiet'', ''--nohttpinterface'', ''--nounixsocket'',
      ''--smallfiles'', ''--nojournal'', ''--dbpath'', ''/tmp/tmpdb'', ''--port'', ''27017'',
      ''--logpath'', ''/dev/null'', ''--noprealloc'']"

definition box1 :: mongobox where
  "box1 =
     box0\<lparr>db_path := Some ''/tmp/tmpdb'', db_path_is_temporary := Some True,
          process := Some \<lparr>args = mongod_args, returncode = None\<rparr>\<rparr>"

definition world1 :: world where
  "world1 =
     world0\<lparr>nodes := (nodes world0)(''/tmp/tmpdb'' \<mapsto> Dir),
            trace := [Ev_connect 27017 True, Ev_poll None, Ev_popen mongod_args,
                      Ev_mkdtemp ''/tmp/tmpdb'']\<rparr>"

text \<open>
  \<open>box2\<close> and \<open>world2\<close> are the object and the machine after \<open>box1.stop()\<close>.
  \<open>box_data\<close> is \<open>MongoBox(db_path = '/data')\<close>; \<open>box_data1\<close> and \<open>world_data1\<close> are
  its state and the machine after \<open>start()\<close>, \<open>box_data2\<close> and \<open>world_data2\<close> after
  \<open>stop()\<close>. \<open>box_seed\<close> is \<open>MongoBox(dump_file = '/data/dump')\<close>; in \<open>world_err\<close>
  the restore command exits with status 0 and prints an error line, in \<open>world_fail\<close> it
  exits with status 1.
\<close>

definition box2 :: mongobox where
  "box2 = box1\<lparr>db_path := None, process := None\<rparr>"

definition world2 :: world where
  "world2 =
     world1\<lparr>nodes := (\<lambda>q. if q = ''/tmp/tmpdb'' \<or> prefix ''/tmp/tmpdb/'' q then None
                          else nodes world1 q),
            trace := Ev_rmtree ''/tmp/tmpdb'' # Ev_wait # Ev_terminate # trace world1\<rparr>"







definition box_seed :: mongobox where
  "box_seed = box0\<lparr>dump_file := Some ''/data/dump''\<rparr>"

definition world_err :: world where
  "world_err = world0\<lparr>restore_output := [''connected to: 127.0.0.1'', ''ERROR: bad dump'']\<rparr>"

definition world_fail :: world where
  "world_fail = world0\<lparr>restore_status := 1, restore_output := [''ERROR: no reachable servers'']\<rparr>"

text \<open>
  Three unhealthy machines. In \<open>world_quiet\<close> the child never accepts a connection and
  never exits. \<open>world_stuck\<close> is the same, and \<open>shutil.rmtree\<close> raises. In
  \<open>world_crash\<close> the child refuses connections and exits with code 1 after 300
  milliseconds.
\<close>

definition world_quiet :: world where
  "world_quiet = world0\<lparr>child_accepts := (\<lambda>prt t. False)\<rparr>"

definition world_stuck :: world where
  "world_stuck = world0\<lparr>child_accepts := (\<lambda>prt t. False), faulty := (\<lambda>op. op = Op_rmtree)\<rparr>"

definition world_crash :: world where
  "world_crash =
     world0\<lparr>child_accepts := (\<lambda>prt t. False),
            child_exit := (\<lambda>t. if 300 \<le> t then Some 1 else None)\<rparr>"








text \<open>
  Two bodies for a \<open>with\<close> statement: \<open>shutil.rmtree(box.db_path)\<close>, and
  \<open>raise UserError('boom')\<close>.
\<close>

definition body_rmtree :: "mongobox \<Rightarrow> world \<Rightarrow> (error + unit) \<times> mongobox \<times> world" where
  "body_rmtree s w = (case rmtree (db_path s) w of (r, w1) \<Rightarrow> (r, s, w1))"

definition body_raise :: "mongobox \<Rightarrow> world \<Rightarrow> (error + unit) \<times> mongobox \<times> world" where
  "body_raise s w = (Inl (UserError ''boom''), s, w)"

section \<open>Facts about the library model and the loop\<close>

lemma contains_sublist: "contains sub s = sublist sub s"
  by (induction s) (auto simp: sublist_Cons_right)

lemma stop_idle: "process s = None \<Longrightarrow> stop s w = (Inr (), s, w)"
  by (simp add: stop_def)

lemma stop_returned: "stop s w = (Inr (), s1, w1) \<Longrightarrow> process s1 = None"
  by (auto simp: stop_def kill_def terminate_def wait_def rmtree_def Let_def
      split: option.splits if_splits prod.splits sum.splits)

lemma stop_raised: "stop s w = (Inl e, s1, w1) \<Longrightarrow> process s1 \<noteq> None"
  by (auto simp: stop_def kill_def terminate_def wait_def rmtree_def Let_def
      split: option.splits if_splits prod.splits sum.splits)

lemma stop_frame:
  "stop s w = (r, s1, w1) \<Longrightarrow>
     s1 = s\<lparr>db_path := db_path s1, process := process s1\<rparr> \<and>
     w1 = w\<lparr>nodes := nodes w1, trace := trace w1\<rparr>"
  by (auto simp: stop_def kill_def terminate_def wait_def rmtree_def Let_def
      split: option.splits if_splits prod.splits sum.splits)

lemma pc_True:
  "poll_and_connect s w = (Inr True, s1, w1) \<Longrightarrow>
     (\<exists>p. s1 = s\<lparr>process := Some p\<rparr> \<and> returncode p = None) \<and>
     child_accepts w (port s) (clock w) \<and>
     w1 = w\<lparr>trace := Ev_connect (port s) True # Ev_poll None # trace w\<rparr>"
  by (auto simp: poll_and_connect_def poll_def connect_def sleep_def Let_def
      split: option.splits if_splits prod.splits sum.splits)

lemma pc_False:
  "poll_and_connect s w = (Inr False, s1, w1) \<Longrightarrow>
     (\<exists>p. s1 = s\<lparr>process := Some p\<rparr> \<and> returncode p = None) \<and>
     \<not> child_accepts w (port s) (clock w) \<and>
     w1 = w\<lparr>clock := clock w + 250, trace := Ev_connect (port s) False # Ev_poll None # trace w\<rparr>"
  by (auto simp: poll_and_connect_def poll_def connect_def sleep_def Let_def
      split: option.splits if_splits prod.splits sum.splits)

lemma wait_loop_done:
  "\<not> clock w < d \<Longrightarrow>
     wait_loop d s w = (case stop s w of (_, s1, w1) \<Rightarrow> (Inr False, s1, w1))"
  by (simp add: wait_loop.simps)

lemma wait_loop_step:
  "clock w < d \<Longrightarrow>
     wait_loop d s w =
       (case poll_and_connect s w of
          (Inl e, s1, w1) \<Rightarrow> (Inl e, s1, w1)
        | (Inr started, s1, w1) \<Rightarrow>
            if started then (Inr True, s1, w1) else wait_loop d s1 w1)"
  by (simp add: wait_loop.simps)

lemma wait_loop_ready:
  "wait_loop d s w = (Inr True, s1, w1) \<Longrightarrow>
     (\<exists>p. process s1 = Some p \<and> returncode p = None) \<and>
     s1 = s\<lparr>process := process s1\<rparr> \<and>
     w1 = w\<lparr>clock := clock w1, trace := trace w1\<rparr> \<and>
     clock w \<le> clock w1 \<and> clock w1 < d \<and> child_accepts w (port s) (clock w1) \<and>
     (\<exists>new. trace w1 = Ev_connect (port s) True # new @ trace w \<and>
        Ev_kill \<notin> set new \<and> Ev_terminate \<notin> set new)"
proof (induction d s w rule: wait_loop.induct)
  case (1 d s w)
  show ?case
  proof (cases "clock w < d")
    case False
    with "1.prems" show ?thesis
      by (simp add: wait_loop_done split: prod.splits)
  next
    case True
    obtain r s' w' where pc: "poll_and_connect s w = (r, s', w')"
      by (cases "poll_and_connect s w") auto
    show ?thesis
    proof (cases r)
      case (Inl e)
      with "1.prems" True pc show ?thesis
        by (simp add: wait_loop_step)
    next
      case (Inr b)
      show ?thesis
      proof (cases b)
        case True
        with Inr pc \<open>clock w < d\<close> "1.prems" have eq: "s1 = s'" "w1 = w'"
          by (simp_all add: wait_loop_step)
        from pc Inr True have "poll_and_connect s w = (Inr True, s', w')" by simp
        from pc_True [OF this] eq \<open>clock w < d\<close> show ?thesis
          by auto
      next
        case False
        with Inr pc \<open>clock w < d\<close> "1.prems" have rec: "wait_loop d s' w' = (Inr True, s1, w1)"
          by (simp add: wait_loop_step)
        from pc Inr False have pcf: "poll_and_connect s w = (Inr False, s', w')" by simp
        note f = pc_False [OF pcf]
        have ih: "(\<exists>p. process s1 = Some p \<and> returncode p = None) \<and>
          s1 = s'\<lparr>process := process s1\<rparr> \<and>
          w1 = w'\<lparr>clock := clock w1, trace := trace w1\<rparr> \<and>
          clock w' \<le> clock w1 \<and> clock w1 < d \<and> child_accepts w' (port s') (clock w1) \<and>
          (\<exists>new. trace w1 = Ev_connect (port s') True # new @ trace w' \<and>
             Ev_kill \<notin> set new \<and> Ev_terminate \<notin> set new)"
          using "1.IH" [OF \<open>clock w < d\<close> pc [symmetric] Inr refl False rec] .
        from f obtain p where s': "s' = s\<lparr>process := Some p\<rparr>" by blast
        from f have w': "w' = w\<lparr>clock := clock w + 250,
          trace := Ev_connect (port s) False # Ev_poll None # trace w\<rparr>" by blast
        from ih obtain new where new: "trace w1 = Ev_connect (port s') True # new @ trace w'"
          "Ev_kill \<notin> set new" "Ev_terminate \<notin> set new" by blast
        have t: "trace w1 = Ev_connect (port s) True #
            (new @ [Ev_connect (port s) False, Ev_poll None]) @ trace w"
          using new(1) by (simp add: s' w')
        have n: "Ev_kill \<notin> set (new @ [Ev_connect (port s) False, Ev_poll None])"
          "Ev_terminate \<notin> set (new @ [Ev_connect (port s) False, Ev_poll None])"
          using new(2,3) by simp_all
        have a: "\<exists>p. process s1 = Some p \<and> returncode p = None" using ih by blast
        have b: "s1 = s\<lparr>process := process s1\<rparr>"
          using ih by (simp add: s')
        have c: "w1 = w\<lparr>clock := clock w1, trace := trace w1\<rparr>"
          using ih by (simp add: w')
        have d: "clock w \<le> clock w1" "clock w1 < d" "child_accepts w (port s) (clock w1)"
          using ih by (simp_all add: s' w')
        from a b c d t n show ?thesis by blast
      qed
    qed
  qed
qed


lemma popen_same: "returncode p = v \<Longrightarrow> p\<lparr>returncode := v\<rparr> = p"
  by (cases p) simp

lemma process_same: "process s = v \<Longrightarrow> s\<lparr>process := v\<rparr> = s"
  by (cases s) simp

lemma pc_retry:
  assumes "process s = Some p" "returncode p = None" "0 \<le> port s" "port s \<le> 65535"
    "child_exit w (clock w) = None" "\<not> child_accepts w (port s) (clock w)"
  shows "poll_and_connect s w =
    (Inr False, s, w\<lparr>clock := clock w + 250,
                     trace := Ev_connect (port s) False # Ev_poll None # trace w\<rparr>)"
  using assms
  by (simp add: poll_and_connect_def poll_def connect_def sleep_def Let_def popen_same process_same)

lemma wait_loop_timeout:
  assumes "process s = Some p" "returncode p = None" "0 \<le> port s" "port s \<le> 65535"
    "\<forall>t. clock w \<le> t \<and> t < d \<longrightarrow> child_exit w t = None \<and> \<not> child_accepts w (port s) t"
  shows "\<exists>c tr. d \<le> c \<and>
    wait_loop d s w =
      (case stop s (w\<lparr>clock := c, trace := tr\<rparr>) of (r, s1, w1) \<Rightarrow> (Inr False, s1, w1))"
  using assms
proof (induction d s w rule: wait_loop.induct)
  case (1 d s w)
  show ?case
  proof (cases "clock w < d")
    case False
    have "w\<lparr>clock := clock w, trace := trace w\<rparr> = w" by simp
    with False show ?thesis
      by (metis wait_loop_done not_less)
  next
    case True
    let ?w' = "w\<lparr>clock := clock w + 250,
                  trace := Ev_connect (port s) False # Ev_poll None # trace w\<rparr>"
    from "1.prems" True have now: "child_exit w (clock w) = None"
      "\<not> child_accepts w (port s) (clock w)" by auto
    have pc: "poll_and_connect s w = (Inr False, s, ?w')"
      using pc_retry [OF "1.prems"(1-4) now] .
    have later: "\<forall>t. clock ?w' \<le> t \<and> t < d \<longrightarrow>
        child_exit ?w' t = None \<and> \<not> child_accepts ?w' (port s) t"
      using "1.prems"(5) by simp
    from "1.IH" [OF True pc [symmetric] refl refl _ "1.prems"(1-4) later]
    obtain c tr where c: "d \<le> c"
      "wait_loop d s ?w' =
        (case stop s (?w'\<lparr>clock := c, trace := tr\<rparr>) of (r, s1, w1) \<Rightarrow> (Inr False, s1, w1))"
      by auto
    have "wait_loop d s w = wait_loop d s ?w'"
      using True pc by (simp add: wait_loop_step)
    with c show ?thesis by auto
  qed
qed

lemma pc_crash:
  "poll_and_connect s w = (Inl (Exception (Stopped_during_startup c)), s1, w1) \<Longrightarrow>
     (\<exists>p. s1 = s\<lparr>process := Some p\<rparr> \<and> returncode p = Some c) \<and>
     w1 = w\<lparr>trace := Ev_poll (Some c) # trace w\<rparr>"
  by (auto simp: poll_and_connect_def poll_def connect_def sleep_def Let_def
      split: option.splits if_splits prod.splits sum.splits)

lemma prepare_db_path_ok:
  assumes "prepare_db_path s w = (Inr d, s1, w1)"
  shows "db_path s1 = Some d"
    and "db_path_is_temporary s1 = Some (\<not> truthy_str (db_path s))"
    and "s1 = s\<lparr>db_path := db_path s1, db_path_is_temporary := db_path_is_temporary s1\<rparr>"
    and "w1 = w\<lparr>nodes := nodes w1, trace := trace w1\<rparr>"
    and "nodes w1 = (if nodes w d = None then (nodes w)(d \<mapsto> Dir) else nodes w)"
    and "if truthy_str (db_path s) then db_path s = Some d else d = tmp_dir w \<and> nodes w d = None"
    and "\<exists>new. trace w1 = new @ trace w \<and> Ev_kill \<notin> set new \<and> Ev_terminate \<notin> set new"
  using assms
  by (auto simp: prepare_db_path_def os_mkdir_def mkdtemp_def path_exists_def truthy_str_def
      split: option.splits if_splits prod.splits sum.splits)

lemma launch_inv:
  assumes "launch s w = (Inr (), s3, w3)"
  shows "\<exists>d sa wa. prepare_db_path s w = (Inr d, sa, wa) \<and>
    wait_loop (clock wa + 15000)
      (sa\<lparr>process := Some \<lparr>args = build_args sa d, returncode = None\<rparr>\<rparr>)
      (wa\<lparr>trace := Ev_popen (build_args sa d) # trace wa\<rparr>) = (Inr True, s3, w3)"
  using assms
  by (auto simp: launch_def Popen_def wait_till_started_def Let_def
      split: prod.splits sum.splits if_splits)

lemma launch_ready:
  assumes "launch s w = (Inr (), s3, w3)"
  shows "\<exists>p. process s3 = Some p \<and> returncode p = None"
    and "s3 = s\<lparr>db_path := db_path s3, process := process s3,
                 db_path_is_temporary := db_path_is_temporary s3\<rparr>"
    and "w3 = w\<lparr>clock := clock w3, nodes := nodes w3, trace := trace w3\<rparr>"
    and "db_path_is_temporary s3 = Some (\<not> truthy_str (db_path s))"
    and "\<exists>d. db_path s3 = Some d \<and>
           nodes w3 = (if nodes w d = None then (nodes w)(d \<mapsto> Dir) else nodes w) \<and>
           (if truthy_str (db_path s) then db_path s = Some d
            else d = tmp_dir w \<and> nodes w d = None)"
    and "clock w \<le> clock w3" and "clock w3 < clock w + 15000"
    and "child_accepts w (port s) (clock w3)"
    and "\<exists>new. trace w3 = Ev_connect (port s) True # new @ trace w \<and>
           Ev_kill \<notin> set new \<and> Ev_terminate \<notin> set new"
proof -
  from launch_inv [OF assms] obtain d sa wa where
    prep: "prepare_db_path s w = (Inr d, sa, wa)" and
    loop: "wait_loop (clock wa + 15000)
      (sa\<lparr>process := Some \<lparr>args = build_args sa d, returncode = None\<rparr>\<rparr>)
      (wa\<lparr>trace := Ev_popen (build_args sa d) # trace wa\<rparr>) = (Inr True, s3, w3)"
    by blast
  note p = prepare_db_path_ok [OF prep]
  note r = wait_loop_ready [OF loop]
  have sa: "sa = s\<lparr>db_path := db_path sa, db_path_is_temporary := db_path_is_temporary sa\<rparr>"
    using p(3) .
  have wa: "wa = w\<lparr>nodes := nodes wa, trace := trace wa\<rparr>"
    using p(4) .
  have s3: "s3 = sa\<lparr>process := process s3\<rparr>"
    using r by simp
  have w3: "w3 = wa\<lparr>clock := clock w3, trace := trace w3\<rparr>"
    using r by simp
  have ports: "port sa = port s"
    by (subst sa) simp
  have clk: "clock wa = clock w" and acc: "child_accepts wa = child_accepts w"
    by (subst wa, simp)+
  have dbs: "db_path s3 = db_path sa" "db_path_is_temporary s3 = db_path_is_temporary sa"
    by (subst s3, simp)+
  have nds: "nodes w3 = nodes wa"
    by (subst w3) simp
  show "\<exists>p. process s3 = Some p \<and> returncode p = None"
    using r by blast
  show "s3 = s\<lparr>db_path := db_path s3, process := process s3,
                 db_path_is_temporary := db_path_is_temporary s3\<rparr>"
    by (subst s3, subst sa) (simp add: dbs)
  show "w3 = w\<lparr>clock := clock w3, nodes := nodes w3, trace := trace w3\<rparr>"
    by (subst w3, subst wa) (simp add: nds)
  show "db_path_is_temporary s3 = Some (\<not> truthy_str (db_path s))"
    using p(2) dbs by simp
  show "\<exists>d. db_path s3 = Some d \<and>
           nodes w3 = (if nodes w d = None then (nodes w)(d \<mapsto> Dir) else nodes w) \<and>
           (if truthy_str (db_path s) then db_path s = Some d
            else d = tmp_dir w \<and> nodes w d = None)"
    using p(1,5,6) dbs nds by auto
  show "clock w \<le> clock w3" "clock w3 < clock w + 15000"
    using r clk by simp_all
  show "child_accepts w (port s) (clock w3)"
    using r acc ports by simp
  from r obtain new where new:
    "trace w3 = Ev_connect (port s) True # new @ Ev_popen (build_args sa d) # trace wa"
    "Ev_kill \<notin> set new" "Ev_terminate \<notin> set new"
    using ports by auto
  from p(7) obtain old where old: "trace wa = old @ trace w"
    "Ev_kill \<notin> set old" "Ev_terminate \<notin> set old" by blast
  have "trace w3 = Ev_connect (port s) True # (new @ Ev_popen (build_args sa d) # old) @ trace w"
    using new(1) old(1) by simp
  moreover have "Ev_kill \<notin> set (new @ Ev_popen (build_args sa d) # old)"
    "Ev_terminate \<notin> set (new @ Ev_popen (build_args sa d) # old)"
    using new(2,3) old(2,3) by simp_all
  ultimately show "\<exists>new. trace w3 = Ev_connect (port s) True # new @ trace w \<and>
           Ev_kill \<notin> set new \<and> Ev_terminate \<notin> set new"
    by blast
qed

lemma restore_dump_frame:
  assumes "restore_dump s w = (r, s1, w1)"
  shows "s1 = s" and "clock w1 = clock w"
    and "nodes w p \<noteq> None \<Longrightarrow> nodes w1 p = nodes w p"
    and "\<exists>new. trace w1 = new @ trace w \<and> Ev_kill \<notin> set new \<and> Ev_terminate \<notin> set new"
proof -
  note defs = restore_dump_def NamedTemporaryFile_def check_call_def Let_def
  show "s1 = s" using assms
    by (simp add: defs split: option.splits if_splits prod.splits sum.splits) 
  show "clock w1 = clock w"  using assms
    by (auto simp add: defs split: option.splits if_splits prod.splits sum.splits)
  show "nodes w p \<noteq> None \<Longrightarrow> nodes w1 p = nodes w p" using assms
    by (auto simp add: defs split: option.splits if_splits prod.splits sum.splits)
  show "\<exists>new. trace w1 = new @ trace w \<and> Ev_kill \<notin> set new \<and> Ev_terminate \<notin> set new"
    using assms
    by (auto simp add: defs split: option.splits if_splits prod.splits sum.splits)
qed

lemma start_inv:
  "start s w = (Inr (), s2, w2) \<Longrightarrow>
     \<exists>s1 w1. launch s w = (Inr (), s1, w1) \<and> restore_dump s1 w1 = (Inr (), s2, w2)"
  by (auto simp: start_def split: prod.splits sum.splits)



lemma restore_dump_runs:
  assumes "dump_file s = Some f" and "f \<noteq> []"
    and "\<not> faulty w Op_tmpfile" and "nodes w (tmp_file w) = None"
    and "\<not> faulty w Op_check_call"
  shows "restore_dump s w =
    (if restore_status w \<noteq> 0 then Inl (CalledProcessError (restore_status w))
     else if filter (contains ''ERROR'') (restore_output w) \<noteq> []
       then Inl (Exception (Mongorestore_errors (filter (contains ''ERROR'') (restore_output w))))
       else Inr (),
     s,
     w\<lparr>nodes := (nodes w)(tmp_file w \<mapsto> File),
       contents := (contents w)(tmp_file w := restore_output w),
       trace := Ev_check_call [''mongorestore'', ''--port'', str_int (port s), f]
                # Ev_tmpfile (tmp_file w) # trace w\<rparr>)"
  using assms
  by (simp add: restore_dump_def NamedTemporaryFile_def check_call_def Let_def truthy_str_def)

lemma world_frame_fields:
  assumes "w1 = w\<lparr>clock := c, nodes := n, trace := t\<rparr>"
  shows "faulty w1 = faulty w" and "restore_status w1 = restore_status w"
    and "restore_output w1 = restore_output w" and "tmp_file w1 = tmp_file w"
    and "tmp_dir w1 = tmp_dir w" and "platform w1 = platform w"
    and "child_accepts w1 = child_accepts w" and "child_exit w1 = child_exit w"
  using assms by simp_all

lemma box_frame_fields:
  assumes "s1 = s\<lparr>db_path := d, process := p, db_path_is_temporary := t\<rparr>"
  shows "port s1 = port s" and "dump_file s1 = dump_file s"
  using assms by simp_all


lemma init_box0: "MongoBox_init None None None None True False False None world0 = Inr box0"
  by (simp add: MongoBox_init_def truthy_str_def find_executable_def get_free_port_def
      MONGOD_BIN_def world0_def box0_def)

lemma start_box0: "start box0 world0 = (Inr (), box1, world1)"
  by (simp add: start_def launch_def prepare_db_path_def mkdtemp_def Popen_def
      wait_till_started_def wait_loop.simps poll_and_connect_def poll_def connect_def
      restore_dump_def truthy_str_def Let_def box0_def world0_def box1_def world1_def
      build_args_def DEFAULT_ARGS_def mongod_args_def str_int_def str_nat.simps)

lemma stop_box1: "fst (stop box1 world1) = Inr ()"
  by (simp add: stop_def terminate_def wait_def rmtree_def Let_def box0_def world0_def
      box1_def world1_def)

lemmas eval_defs = start_def launch_def prepare_db_path_def mkdtemp_def os_mkdir_def Popen_def
      wait_till_started_def wait_loop.simps poll_and_connect_def poll_def connect_def
      restore_dump_def truthy_str_def Let_def box0_def world0_def box1_def world1_def
      build_args_def DEFAULT_ARGS_def mongod_args_def str_int_def str_nat.simps path_exists_def

lemma launch_seed_err:
  "launch box_seed world_err
     = (Inr (), box1\<lparr>dump_file := Some ''/data/dump''\<rparr>,
        world1\<lparr>restore_output := [''connected to: 127.0.0.1'', ''ERROR: bad dump'']\<rparr>)"
  by (simp add: eval_defs box_seed_def world_err_def)

lemma launch_seed_fail:
  "launch box_seed world_fail
     = (Inr (), box1\<lparr>dump_file := Some ''/data/dump''\<rparr>,
        world1\<lparr>restore_status := 1, restore_output := [''ERROR: no reachable servers'']\<rparr>)"
  by (simp add: eval_defs box_seed_def world_fail_def)

lemmas stop_defs = stop_def kill_def terminate_def wait_def rmtree_def

lemma stop_box1_eq: "stop box1 world1 = (Inr (), box2, world2)"
  by (simp add: stop_defs Let_def box0_def world0_def box1_def world1_def box2_def world2_def
      cong del: if_weak_cong)




lemma world_frame_fields2:
  assumes "w1 = w\<lparr>nodes := n, trace := t\<rparr>"
  shows "faulty w1 = faulty w" and "clock w1 = clock w"
    and "child_accepts w1 = child_accepts w" and "child_exit w1 = child_exit w"
    and "platform w1 = platform w"
  using assms by simp_all

lemma box_frame_fields2:
  assumes "s1 = s\<lparr>db_path := d, db_path_is_temporary := t\<rparr>"
  shows "port s1 = port s" and "process s1 = process s"
  using assms by simp_all

lemma launch_timeout:
  assumes prep: "prepare_db_path s w = (Inr d, s1, w1)"
    and spawn: "\<not> faulty w Op_popen"
    and port: "0 \<le> port s" "port s \<le> 65535"
    and quiet: "\<forall>t. clock w \<le> t \<and> t < clock w + 15000 \<longrightarrow>
                  child_exit w t = None \<and> \<not> child_accepts w (port s) t"
  shows "\<exists>c tr. clock w + 15000 \<le> c \<and>
    launch s w =
      (case stop (s1\<lparr>process := Some \<lparr>args = build_args s1 d, returncode = None\<rparr>\<rparr>)
                 (w1\<lparr>clock := c, trace := tr\<rparr>) of
         (r, s', w') \<Rightarrow> (Inl (Exception (Did_not_start 15000)), s', w'))"
proof -
  let ?p = "\<lparr>args = build_args s1 d, returncode = None\<rparr>"
  let ?s2 = "s1\<lparr>process := Some ?p\<rparr>"
  let ?w2 = "w1\<lparr>trace := Ev_popen (build_args s1 d) # trace w1\<rparr>"
  note po = prepare_db_path_ok [OF prep]
  note wf = world_frame_fields2 [OF po(4)]
  note bf = box_frame_fields2 [OF po(3)]
  have a: "process ?s2 = Some ?p" "returncode ?p = None" by simp_all
  have b: "0 \<le> port ?s2" "port ?s2 \<le> 65535" using port bf by simp_all
  have c: "\<forall>t. clock ?w2 \<le> t \<and> t < clock w + 15000 \<longrightarrow>
             child_exit ?w2 t = None \<and> \<not> child_accepts ?w2 (port ?s2) t"
    using quiet wf bf by simp
  from wait_loop_timeout [OF a b c] obtain c tr where c: "clock w + 15000 \<le> c"
    "wait_loop (clock w + 15000) ?s2 ?w2 =
       (case stop ?s2 (?w2\<lparr>clock := c, trace := tr\<rparr>) of (r, s', w') \<Rightarrow> (Inr False, s', w'))"
    by blast
  have same: "?w2\<lparr>clock := c, trace := tr\<rparr> = w1\<lparr>clock := c, trace := tr\<rparr>" by simp
  have pop: "Popen (build_args s1 d) w1 = (Inr ?p, ?w2)"
    using spawn wf by (simp add: Popen_def)
  have wts: "wait_till_started 15000 ?s2 ?w2 =
       (case stop ?s2 (w1\<lparr>clock := c, trace := tr\<rparr>) of (r, s', w') \<Rightarrow> (Inr False, s', w'))"
    using c(2) wf unfolding same by (simp add: wait_till_started_def)
  have "launch s w =
      (case stop ?s2 (w1\<lparr>clock := c, trace := tr\<rparr>) of
         (r, s', w') \<Rightarrow> (Inl (Exception (Did_not_start 15000)), s', w'))"
    by (simp add: launch_def prep pop wts Let_def split: prod.splits)
  with c(1) show ?thesis by blast
qed

lemma stop_running_iff:
  "stop s w = (r, s1, w1) \<Longrightarrow> (\<not> running s1) = (r = Inr ())"
  by (cases r) (auto simp: running_def dest: stop_returned stop_raised)

lemma prepare_quiet:
  "prepare_db_path box0 world_quiet =
     (Inr ''/tmp/tmpdb'', box0\<lparr>db_path := Some ''/tmp/tmpdb'', db_path_is_temporary := Some True\<rparr>,
      world_quiet\<lparr>nodes := (nodes world_quiet)(''/tmp/tmpdb'' \<mapsto> Dir),
                  trace := [Ev_mkdtemp ''/tmp/tmpdb'']\<rparr>)"
  by (simp add: prepare_db_path_def mkdtemp_def truthy_str_def box0_def world0_def world_quiet_def)

lemma prepare_stuck:
  "prepare_db_path box0 world_stuck =
     (Inr ''/tmp/tmpdb'', box0\<lparr>db_path := Some ''/tmp/tmpdb'', db_path_is_temporary := Some True\<rparr>,
      world_stuck\<lparr>nodes := (nodes world_stuck)(''/tmp/tmpdb'' \<mapsto> Dir),
                  trace := [Ev_mkdtemp ''/tmp/tmpdb'']\<rparr>)"
  by (simp add: prepare_db_path_def mkdtemp_def truthy_str_def box0_def world0_def world_stuck_def)

lemma stop_quiet:
  "fst (stop (box0\<lparr>db_path := Some ''/tmp/tmpdb'', db_path_is_temporary := Some True,
                  process := Some p\<rparr>)
            (world_quiet\<lparr>nodes := (nodes world_quiet)(''/tmp/tmpdb'' \<mapsto> Dir),
                         trace := t0, clock := c, trace := tr\<rparr>)) = Inr ()"
  by (simp add: stop_def terminate_def wait_def rmtree_def Let_def world_quiet_def world0_def)

lemma stop_stuck:
  "fst (stop (box0\<lparr>db_path := Some ''/tmp/tmpdb'', db_path_is_temporary := Some True,
                  process := Some p\<rparr>)
            (world_stuck\<lparr>nodes := (nodes world_stuck)(''/tmp/tmpdb'' \<mapsto> Dir),
                         trace := t0, clock := c, trace := tr\<rparr>)) = Inl (OSError Op_rmtree)"
  by (simp add: stop_def terminate_def wait_def rmtree_def Let_def world_stuck_def world0_def)

lemma quiet_env:
  "\<not> faulty world_quiet Op_popen" "0 \<le> port box0" "port box0 \<le> 65535"
  "\<forall>t. clock world_quiet \<le> t \<and> t < clock world_quiet + 15000 \<longrightarrow>
     child_exit world_quiet t = None \<and> \<not> child_accepts world_quiet (port box0) t"
  by (simp_all add: world_quiet_def world0_def box0_def)

lemma stuck_env:
  "\<not> faulty world_stuck Op_popen" "0 \<le> port box0" "port box0 \<le> 65535"
  "\<forall>t. clock world_stuck \<le> t \<and> t < clock world_stuck + 15000 \<longrightarrow>
     child_exit world_stuck t = None \<and> \<not> child_accepts world_stuck (port box0) t"
  by (simp_all add: world_stuck_def world0_def box0_def)

lemma body_raise_box1: "body_raise box1 world1 = (Inl (UserError ''boom''), box1, world1)"
  by (simp add: body_raise_def)

lemma init_box_27100:
  "MongoBox_init None (Some 27100) None None True False False None world0
     = Inr (box0\<lparr>port := 27100\<rparr>)"
  by (simp add: MongoBox_init_def truthy_str_def find_executable_def get_free_port_def
      MONGOD_BIN_def world0_def box0_def)

lemma configured_port_value:
  "MongoBox_init mb prt lg db sc pr au df w = Inr s \<Longrightarrow>
     port s = (case prt of None \<Rightarrow> get_free_port w
               | Some n \<Rightarrow> if n \<noteq> 0 then n else get_free_port w)"
  unfolding MongoBox_init_def Let_def
  by (simp split: option.splits if_splits) auto







section \<open>Properties of the supervisor\<close>

text \<open>
  C6. \<open>__init__\<close> raises an \<open>AssertionError\<close> (the configuration error) if and only if
  no binary is available (none was passed and the Binary Locator finds none) or the
  data directory passed exists and is a regular file. It raises nothing else, and the
  object it returns otherwise holds no process handle.
\<close>

theorem init_fails_iff:
  "((\<exists>a. MongoBox_init mb prt lg db sc pr au df w = Inl (AssertionError a)) \<longleftrightarrow>
      (\<not> truthy_str mb \<and> \<not> truthy_str (find_executable w MONGOD_BIN)) \<or>
      (\<exists>d. db = Some d \<and> d \<noteq> [] \<and> path_exists w d \<and> isfile w d)) \<and>
   (\<forall>e. MongoBox_init mb prt lg db sc pr au df w = Inl e \<longrightarrow> (\<exists>a. e = AssertionError a)) \<and>
   (\<forall>s. MongoBox_init mb prt lg db sc pr au df w = Inr s \<longrightarrow> process s = None)"
  by (auto simp: MongoBox_init_def truthy_str_def Let_def split: option.splits if_splits)

theorem init_fails_iff_witness:
  "(\<exists>a. MongoBox_init None None None (Some ''/etc/hosts'') True False False None world0
          = Inl (AssertionError a)) \<and>
   (\<exists>a. MongoBox_init None None None None True False False None
          (world0\<lparr>executables := (\<lambda>n. None)\<rparr>) = Inl (AssertionError a)) \<and>
   MongoBox_init None None None None True False False None world0 = Inr box0 \<and>
   process box0 = None"
proof -
  have hosts: "path_exists world0 ''/etc/hosts'' \<and> isfile world0 ''/etc/hosts''"
    by (simp add: path_exists_def isfile_def world0_def)
  have nobin: "\<not> truthy_str None \<and>
      \<not> truthy_str (find_executable (world0\<lparr>executables := (\<lambda>n. None)\<rparr>) MONGOD_BIN)"
    by (simp add: truthy_str_def find_executable_def)
  show ?thesis
    using init_fails_iff [of None None None "Some ''/etc/hosts''" True False False None world0]
      init_fails_iff [of None None None None True False False None
        "world0\<lparr>executables := (\<lambda>n. None)\<rparr>"]
      init_fails_iff [of None None None None True False False None world0]
      hosts nobin init_box0
    by simp
qed

text \<open>
  C8. \<open>stop()\<close> on a supervisor that holds no process handle returns without an error
  and changes neither the supervisor nor the machine; and after a \<open>stop()\<close> that
  returned, a second \<open>stop()\<close> does the same. In both cases \<open>running()\<close> is false.
  Calling \<open>stop()\<close> twice in a row is the same as calling it once.
\<close>

theorem stop_idempotent:
  "(process s = None \<longrightarrow> stop s w = (Inr (), s, w) \<and> \<not> running s) \<and>
   (stop s w = (Inr (), s1, w1) \<longrightarrow> stop s1 w1 = (Inr (), s1, w1) \<and> \<not> running s1) \<and>
   (case stop s w of
      (Inl e, s', w') \<Rightarrow> (Inl e, s', w')
    | (Inr u, s', w') \<Rightarrow> stop s' w') = stop s w"
proof -
  have twice: "(case stop s w of
      (Inl e, s', w') \<Rightarrow> (Inl e, s', w')
    | (Inr u, s', w') \<Rightarrow> stop s' w') = stop s w"
  proof (cases "stop s w")
    case (fields r s' w')
    show ?thesis
    proof (cases r)
      case (Inl e)
      with fields show ?thesis by simp
    next
      case (Inr u)
      with fields have "stop s w = (Inr (), s', w')" by simp
      from stop_returned [OF this] have "process s' = None" .
      with fields Inr show ?thesis by (simp add: stop_idle)
    qed
  qed
  show ?thesis
    using twice by (auto simp: stop_idle running_def dest: stop_returned)
qed

theorem stop_idempotent_witness:
  "stop box0 world0 = (Inr (), box0, world0) \<and> \<not> running box0 \<and>
   fst (stop box1 world1) = Inr () \<and>
   stop (fst (snd (stop box1 world1))) (snd (snd (stop box1 world1)))
     = (Inr (), fst (snd (stop box1 world1)), snd (snd (stop box1 world1))) \<and>
   \<not> running (fst (snd (stop box1 world1)))"
proof -
  have idle: "process box0 = None"
    by (simp add: box0_def)
  have first: "stop box1 world1
      = (Inr (), fst (snd (stop box1 world1)), snd (snd (stop box1 world1)))"
    using stop_box1 by (metis prod.collapse)
  show ?thesis
    using stop_idempotent [of box0 world0 box0 world0]
      stop_idempotent [of box1 world1 "fst (snd (stop box1 world1))"
        "snd (snd (stop box1 world1))"]
      idle first stop_box1
    by simp
qed

text \<open>
  C4. When \<open>start()\<close> returns without an error, a connect to the configured port
  succeeded in the readiness loop, before the 15 seconds were over (the child accepted
  connections at that moment, and the connect is among the effects of this call); no
  signal was sent to the child; the process handle is held and \<open>running()\<close> is true.
\<close>

theorem start_returns_only_if_connected:
  assumes "start s w = (Inr (), s', w')"
  shows "running s' \<and> port s' = port s \<and>
    clock w \<le> clock w' \<and> clock w' < clock w + 15000 \<and> child_accepts w (port s) (clock w') \<and>
    (\<exists>new. trace w' = new @ trace w \<and> Ev_connect (port s) True \<in> set new \<and>
       Ev_kill \<notin> set new \<and> Ev_terminate \<notin> set new)"
proof -
  from start_inv [OF assms] obtain s1 w1 where
    l: "launch s w = (Inr (), s1, w1)" and r: "restore_dump s1 w1 = (Inr (), s', w')"
    by blast
  note lr = launch_ready [OF l]
  note rf = restore_dump_frame [OF r]
  have prt: "port s1 = port s"
    using box_frame_fields [OF lr(2)] by simp
  from lr(9) obtain new where new: "trace w1 = Ev_connect (port s) True # new @ trace w"
    "Ev_kill \<notin> set new" "Ev_terminate \<notin> set new" by blast
  from rf(4) obtain new2 where new2: "trace w' = new2 @ trace w1"
    "Ev_kill \<notin> set new2" "Ev_terminate \<notin> set new2" by blast
  have "trace w' = (new2 @ Ev_connect (port s) True # new) @ trace w"
    using new(1) new2(1) by simp
  moreover have "Ev_connect (port s) True \<in> set (new2 @ Ev_connect (port s) True # new)"
    "Ev_kill \<notin> set (new2 @ Ev_connect (port s) True # new)"
    "Ev_terminate \<notin> set (new2 @ Ev_connect (port s) True # new)"
    using new(2,3) new2(2,3) by simp_all
  ultimately have tr: "\<exists>new. trace w' = new @ trace w \<and> Ev_connect (port s) True \<in> set new \<and>
       Ev_kill \<notin> set new \<and> Ev_terminate \<notin> set new"
    by blast
  have "running s'"
    using lr(1) rf(1) by (auto simp: running_def)
  with tr prt lr(6,7,8) rf(1,2) show ?thesis
    by simp
qed

theorem start_returns_only_if_connected_witness:
  "start box0 world0 = (Inr (), box1, world1) \<and> running box1 \<and>
   child_accepts world0 (port box0) (clock world1) \<and>
   Ev_connect 27017 True \<in> set (trace world1)"
  using start_box0 start_returns_only_if_connected [OF start_box0]
  by (auto simp: box0_def world0_def)

text \<open>
  C5, as amended. When a dump file is configured, the server became ready, the output
  file was created, the restore command ran and exited with status 0, and a line of
  its captured output contains \<open>ERROR\<close>, then
  \<open>start()\<close> raises the exception that lists the error lines; the process handle is
  the one held after readiness, no exit of the child has been observed and no signal
  was sent: the two effects after readiness are the output file and the restore command.
\<close>

theorem import_error_leaves_running:
  assumes l: "launch s w = (Inr (), s1, w1)"
    and dump: "dump_file s = Some f" "f \<noteq> []"
    and env: "\<not> faulty w Op_tmpfile" "nodes w1 (tmp_file w) = None" "\<not> faulty w Op_check_call"
    and ok: "restore_status w = 0"
    and err: "\<exists>line \<in> set (restore_output w). \<exists>ps ss. line = ps @ ''ERROR'' @ ss"
  shows "\<exists>w2. start s w =
      (Inl (Exception (Mongorestore_errors (filter (contains ''ERROR'') (restore_output w)))),
       s1, w2) \<and>
    filter (contains ''ERROR'') (restore_output w) \<noteq> [] \<and>
    running s1 \<and> (\<exists>p. process s1 = Some p \<and> returncode p = None) \<and>
    trace w2 = Ev_check_call [''mongorestore'', ''--port'', str_int (port s), f]
               # Ev_tmpfile (tmp_file w) # trace w1"
proof -
  note lr = launch_ready [OF l]
  have d1: "dump_file s1 = Some f" and p1: "port s1 = port s"
    using dump(1) box_frame_fields [OF lr(2)] by simp_all
  have e1: "\<not> faulty w1 Op_tmpfile" "nodes w1 (tmp_file w1) = None"
    "\<not> faulty w1 Op_check_call" "restore_status w1 = 0" "restore_output w1 = restore_output w"
    "tmp_file w1 = tmp_file w"
    using env ok world_frame_fields [OF lr(3)] by simp_all
  from err have ne: "filter (contains ''ERROR'') (restore_output w) \<noteq> []"
    by (auto simp: filter_empty_conv contains_sublist sublist_def)
  have "start s w = restore_dump s1 w1"
    using l by (simp add: start_def)
  also note restore_dump_runs [OF d1 dump(2) e1(1,2,3)]
  finally show ?thesis
    using ne e1 p1 lr(1) by (auto simp: running_def)
qed

theorem import_error_leaves_running_witness:
  "fst (start box_seed world_err) = Inl (Exception (Mongorestore_errors [''ERROR: bad dump''])) \<and>
   running (fst (snd (start box_seed world_err)))"
proof -
  have dump: "dump_file box_seed = Some ''/data/dump''" "''/data/dump'' \<noteq> []"
    by (simp_all add: box_seed_def box0_def)
  have env: "\<not> faulty world_err Op_tmpfile"
    "nodes (world1\<lparr>restore_output := [''connected to: 127.0.0.1'', ''ERROR: bad dump'']\<rparr>)
       (tmp_file world_err) = None"
    "\<not> faulty world_err Op_check_call" "restore_status world_err = 0"
    by (simp_all add: world_err_def world0_def world1_def)
  have ro: "restore_output world_err = [''connected to: 127.0.0.1'', ''ERROR: bad dump'']"
    by (simp add: world_err_def)
  have c: "contains ''ERROR'' ''ERROR: bad dump''"
    by simp
  have ex: "\<exists>ps ss. ''ERROR: bad dump'' = ps @ ''ERROR'' @ ss"
    using c unfolding contains_sublist sublist_def .
  have err: "\<exists>line \<in> set (restore_output world_err). \<exists>ps ss. line = ps @ ''ERROR'' @ ss"
    unfolding ro
  proof (rule bexI)
    show "\<exists>ps ss. ''ERROR: bad dump'' = ps @ ''ERROR'' @ ss" by (rule ex)
    show "''ERROR: bad dump'' \<in> set [''connected to: 127.0.0.1'', ''ERROR: bad dump'']" by simp
  qed
  have flt: "filter (contains ''ERROR'') (restore_output world_err) = [''ERROR: bad dump'']"
    by (simp add: world_err_def)
  from import_error_leaves_running [OF launch_seed_err dump env err]
  show ?thesis
    by (auto simp: flt box1_def running_def)
qed

text \<open>
  C5, as stated, fails when the restore command exits with a non-zero status: in
  \<open>world_fail\<close> a dump file is configured, the server became ready and the captured
  output holds a line with \<open>ERROR\<close>, and \<open>start()\<close> raises the \<open>CalledProcessError\<close> of
  \<open>check_call\<close>, not the exception that lists the error lines.
\<close>

theorem error_line_with_failed_restore:
  "dump_file box_seed = Some ''/data/dump'' \<and>
   launch box_seed world_fail
     = (Inr (), box1\<lparr>dump_file := Some ''/data/dump''\<rparr>,
        world1\<lparr>restore_status := 1, restore_output := [''ERROR: no reachable servers'']\<rparr>) \<and>
   fst (start box_seed world_fail) = Inl (CalledProcessError 1) \<and>
   contents (snd (snd (start box_seed world_fail))) ''/tmp/tmpout''
     = [''ERROR: no reachable servers''] \<and>
   contains ''ERROR'' ''ERROR: no reachable servers''"
proof -
  have "start box_seed world_fail =
      restore_dump (box1\<lparr>dump_file := Some ''/data/dump''\<rparr>)
        (world1\<lparr>restore_status := 1, restore_output := [''ERROR: no reachable servers'']\<rparr>)"
    by (simp add: start_def launch_seed_fail)
  then show ?thesis
    using launch_seed_fail
    by (simp add: restore_dump_def NamedTemporaryFile_def check_call_def Let_def truthy_str_def
        box_seed_def box0_def box1_def world1_def world0_def)
qed

text \<open>
  C10. When a dump file is configured, the server became ready and the restore command
  exits with a non-zero status, \<open>start()\<close> raises the \<open>CalledProcessError\<close> of
  \<open>check_call\<close>, which is not the exception of the scan for error lines, whatever the
  output holds; the process handle is kept and no signal was sent.
\<close>

theorem restore_failure_propagates:
  assumes l: "launch s w = (Inr (), s1, w1)"
    and dump: "dump_file s = Some f" "f \<noteq> []"
    and env: "\<not> faulty w Op_tmpfile" "nodes w1 (tmp_file w) = None" "\<not> faulty w Op_check_call"
    and bad: "restore_status w \<noteq> 0"
  shows "\<exists>w2. start s w = (Inl (CalledProcessError (restore_status w)), s1, w2) \<and>
    (\<forall>errs. CalledProcessError (restore_status w) \<noteq> Exception (Mongorestore_errors errs)) \<and>
    running s1 \<and> (\<exists>p. process s1 = Some p \<and> returncode p = None) \<and>
    trace w2 = Ev_check_call [''mongorestore'', ''--port'', str_int (port s), f]
               # Ev_tmpfile (tmp_file w) # trace w1"
proof -
  note lr = launch_ready [OF l]
  have d1: "dump_file s1 = Some f" and p1: "port s1 = port s"
    using dump(1) box_frame_fields [OF lr(2)] by simp_all
  have e1: "\<not> faulty w1 Op_tmpfile" "nodes w1 (tmp_file w1) = None"
    "\<not> faulty w1 Op_check_call" "restore_status w1 = restore_status w"
    "tmp_file w1 = tmp_file w"
    using env world_frame_fields [OF lr(3)] by simp_all
  have "start s w = restore_dump s1 w1"
    using l by (simp add: start_def)
  also note restore_dump_runs [OF d1 dump(2) e1(1,2,3)]
  finally show ?thesis
    using bad e1 p1 lr(1) by (auto simp: running_def)
qed

theorem restore_failure_propagates_witness:
  "fst (start box_seed world_fail) = Inl (CalledProcessError 1) \<and>
   running (fst (snd (start box_seed world_fail)))"
proof -
  have dump: "dump_file box_seed = Some ''/data/dump''" "''/data/dump'' \<noteq> []"
    by (simp_all add: box_seed_def box0_def)
  have env: "\<not> faulty world_fail Op_tmpfile"
    "nodes (world1\<lparr>restore_status := 1, restore_output := [''ERROR: no reachable servers'']\<rparr>)
       (tmp_file world_fail) = None"
    "\<not> faulty world_fail Op_check_call" "restore_status world_fail \<noteq> 0"
    by (simp_all add: world_fail_def world0_def world1_def)
  from restore_failure_propagates [OF launch_seed_fail dump env]
  show ?thesis
    by (auto simp: world_fail_def box1_def running_def)
qed




text \<open>
  C9, as amended. When the caller passes a port other than zero, the configured port is
  that port, unchanged and with no check of its range; when the caller passes none (or
  zero), it is the port of the Port Allocator. It lies in 1..65535 exactly when the port
  passed, or else the port allocated, does.
\<close>

theorem init_port:
  assumes "MongoBox_init mb prt lg db sc pr au df w = Inr s"
  shows "(truthy_int prt \<longrightarrow> prt = Some (port s)) \<and>
    (\<not> truthy_int prt \<longrightarrow> port s = get_free_port w) \<and>
    ((1 \<le> port s \<and> port s \<le> 65535) =
       (if truthy_int prt then \<exists>n. prt = Some n \<and> 1 \<le> n \<and> n \<le> 65535
        else 1 \<le> get_free_port w \<and> get_free_port w \<le> 65535))"
  using configured_port_value [OF assms]
  by (cases prt) (simp_all add: truthy_int_def)

theorem init_port_witness:
  "port (box0\<lparr>port := 27100\<rparr>) = 27100 \<and> port box0 = get_free_port world0 \<and>
   1 \<le> port box0 \<and> port box0 \<le> 65535"
  using init_port [OF init_box_27100] init_port [OF init_box0]
  by (simp add: truthy_int_def get_free_port_def world0_def)

text \<open>
  C9, as stated, fails: \<open>MongoBox(port = 70000)\<close> is built, with 70000 as its port.
\<close>

theorem init_accepts_port_out_of_range:
  "MongoBox_init None (Some 70000) None None True False False None world0
     = Inr (box0\<lparr>port := 70000\<rparr>) \<and>
   \<not> port (box0\<lparr>port := 70000\<rparr>) \<le> 65535"
  by (simp add: MongoBox_init_def truthy_str_def find_executable_def get_free_port_def
      MONGOD_BIN_def world0_def box0_def)

text \<open>
  C1, on \<open>MongoBox()\<close> in \<open>world_crash\<close>. \<open>start()\<close> raises the exception that carries
  the exit code 1, and the poll that saw the exit is the last thing it did: two refused
  connects came before, none after. But the process handle is still held, so
  \<open>running()\<close> is true, and the temporary directory is still there.
\<close>

theorem crash_keeps_handle:
  "fst (start box0 world_crash) = Inl (Exception (Stopped_during_startup 1)) \<and>
   running (fst (snd (start box0 world_crash))) \<and>
   trace (snd (snd (start box0 world_crash))) =
     [Ev_poll (Some 1), Ev_connect 27017 False, Ev_poll None, Ev_connect 27017 False,
      Ev_poll None, Ev_popen mongod_args, Ev_mkdtemp ''/tmp/tmpdb''] \<and>
   nodes (snd (snd (start box0 world_crash))) ''/tmp/tmpdb'' = Some Dir"
  by (simp add: eval_defs world_crash_def running_def sleep_def)

text \<open>
  C2, as amended. Let the directory step and the spawn succeed, the port be in 0..65535,
  and the child neither exit nor accept a connection at any time before the deadline
  of 15 seconds. Then \<open>start()\<close> calls \<open>stop()\<close> on the spawned handle at a time not
  before the deadline, drops whatever \<open>stop()\<close> raises, and raises the exception
  "did not start"; afterwards \<open>running()\<close> is false if and only if that \<open>stop()\<close>
  returned without raising.
\<close>

theorem timeout_stops_and_raises:
  assumes prep: "prepare_db_path s w = (Inr d, s1, w1)"
    and spawn: "\<not> faulty w Op_popen"
    and port: "0 \<le> port s" "port s \<le> 65535"
    and quiet: "\<forall>t. clock w \<le> t \<and> t < clock w + 15000 \<longrightarrow>
                  child_exit w t = None \<and> \<not> child_accepts w (port s) t"
  shows "\<exists>c tr r s' w'. clock w + 15000 \<le> c \<and>
    stop (s1\<lparr>process := Some \<lparr>args = build_args s1 d, returncode = None\<rparr>\<rparr>)
         (w1\<lparr>clock := c, trace := tr\<rparr>) = (r, s', w') \<and>
    start s w = (Inl (Exception (Did_not_start 15000)), s', w') \<and>
    (\<not> running s') = (r = Inr ())"
proof -
  from launch_timeout [OF assms] obtain c tr where c: "clock w + 15000 \<le> c"
    "launch s w =
      (case stop (s1\<lparr>process := Some \<lparr>args = build_args s1 d, returncode = None\<rparr>\<rparr>)
                 (w1\<lparr>clock := c, trace := tr\<rparr>) of
         (r, s', w') \<Rightarrow> (Inl (Exception (Did_not_start 15000)), s', w'))"
    by blast
  obtain r s' w' where st:
    "stop (s1\<lparr>process := Some \<lparr>args = build_args s1 d, returncode = None\<rparr>\<rparr>)
          (w1\<lparr>clock := c, trace := tr\<rparr>) = (r, s', w')"
    by (metis prod.collapse)
  have "start s w = (Inl (Exception (Did_not_start 15000)), s', w')"
    using c(2) st by (simp add: start_def)
  with c(1) st stop_running_iff [OF st] show ?thesis by blast
qed

theorem timeout_stops_and_raises_witness:
  "fst (start box0 world_quiet) = Inl (Exception (Did_not_start 15000)) \<and>
   \<not> running (fst (snd (start box0 world_quiet)))"
proof -
  from timeout_stops_and_raises [OF prepare_quiet quiet_env]
  obtain c tr r s' w' where
    st: "stop (box0\<lparr>db_path := Some ''/tmp/tmpdb'', db_path_is_temporary := Some True,
                    process := Some \<lparr>args = build_args
                       (box0\<lparr>db_path := Some ''/tmp/tmpdb'', db_path_is_temporary := Some True\<rparr>)
                       ''/tmp/tmpdb'', returncode = None\<rparr>\<rparr>)
              (world_quiet\<lparr>nodes := (nodes world_quiet)(''/tmp/tmpdb'' \<mapsto> Dir),
                           trace := [Ev_mkdtemp ''/tmp/tmpdb''], clock := c, trace := tr\<rparr>)
         = (r, s', w')"
    and res: "start box0 world_quiet = (Inl (Exception (Did_not_start 15000)), s', w')"
    and run: "(\<not> running s') = (r = Inr ())"
    by blast
  from st stop_quiet have "r = Inr ()"
    by (metis fst_conv)
  with res run show ?thesis by simp
qed

text \<open>
  C2, as stated, fails on \<open>MongoBox()\<close> in \<open>world_stuck\<close>: \<open>rmtree\<close> raises inside
  \<open>stop()\<close>, before \<open>self.process = None\<close>; \<open>start()\<close> raises "did not start" and
  \<open>running()\<close> is true.
\<close>

theorem timeout_with_failing_stop_keeps_handle:
  "fst (start box0 world_stuck) = Inl (Exception (Did_not_start 15000)) \<and>
   running (fst (snd (start box0 world_stuck)))"
proof -
  from launch_timeout [OF prepare_stuck stuck_env]
  obtain c tr where l: "launch box0 world_stuck =
      (case stop (box0\<lparr>db_path := Some ''/tmp/tmpdb'', db_path_is_temporary := Some True,
                    process := Some \<lparr>args = build_args
                       (box0\<lparr>db_path := Some ''/tmp/tmpdb'', db_path_is_temporary := Some True\<rparr>)
                       ''/tmp/tmpdb'', returncode = None\<rparr>\<rparr>)
              (world_stuck\<lparr>nodes := (nodes world_stuck)(''/tmp/tmpdb'' \<mapsto> Dir),
                           trace := [Ev_mkdtemp ''/tmp/tmpdb''], clock := c, trace := tr\<rparr>) of
         (r, s', w') \<Rightarrow> (Inl (Exception (Did_not_start 15000)), s', w'))"
    by blast
  obtain r s' w' where
    st: "stop (box0\<lparr>db_path := Some ''/tmp/tmpdb'', db_path_is_temporary := Some True,
                    process := Some \<lparr>args = build_args
                       (box0\<lparr>db_path := Some ''/tmp/tmpdb'', db_path_is_temporary := Some True\<rparr>)
                       ''/tmp/tmpdb'', returncode = None\<rparr>\<rparr>)
              (world_stuck\<lparr>nodes := (nodes world_stuck)(''/tmp/tmpdb'' \<mapsto> Dir),
                           trace := [Ev_mkdtemp ''/tmp/tmpdb''], clock := c, trace := tr\<rparr>)
         = (r, s', w')"
    by (metis prod.collapse)
  from st stop_stuck have r: "r = Inl (OSError Op_rmtree)"
    by (metis fst_conv)
  have "running s'"
    using stop_raised [OF st [unfolded r]] by (simp add: running_def)
  moreover have "start box0 world_stuck = (Inl (Exception (Did_not_start 15000)), s', w')"
    using l st by (simp add: start_def)
  ultimately show ?thesis by simp
qed

text \<open>
  C7, as amended. When \<open>__enter__\<close> (that is \<open>start()\<close>) returned, the body runs on the
  started object, and \<open>__exit__\<close> (that is \<open>stop()\<close>) runs on what the body left,
  whether the body returned or raised. If that \<open>stop()\<close> returns, the outcome of the
  \<open>with\<close> statement is the body's; if it raises, its exception is the outcome. Afterwards
  \<open>running()\<close> is false if and only if that \<open>stop()\<close> returned without raising.
\<close>

theorem scope_calls_stop_on_every_exit:
  assumes "start s w = (Inr (), s1, w1)"
    and "body s1 w1 = (r, s2, w2)"
    and "stop s2 w2 = (rs, s3, w3)"
  shows "with_statement s w body = ((case rs of Inl e \<Rightarrow> Inl e | Inr u \<Rightarrow> r), s3, w3) \<and>
    (\<not> running s3) = (rs = Inr ())"
  using assms stop_running_iff [OF assms(3)]
  by (simp add: with_statement_def MongoBox_enter_def MongoBox_exit_def split: sum.splits)

theorem scope_calls_stop_on_every_exit_witness:
  "with_statement box0 world0 body_raise = (Inl (UserError ''boom''), box2, world2) \<and>
   \<not> running box2"
  using scope_calls_stop_on_every_exit [where body = body_raise, OF start_box0 body_raise_box1 stop_box1_eq]
  by simp

text \<open>
  C7, as stated, fails on \<open>with MongoBox() as box: shutil.rmtree(box.db_path)\<close> in
  \<open>world0\<close>: the scope is entered, the body returns, \<open>rmtree\<close> raises inside \<open>stop()\<close>
  as the directory is gone, and \<open>running()\<close> is true after the scope.
\<close>

theorem scope_with_failing_stop_keeps_handle:
  "fst (with_statement box0 world0 body_rmtree) = Inl (OSError Op_rmtree) \<and>
   running (fst (snd (with_statement box0 world0 body_rmtree)))"
proof -
  have entered: "with_statement box0 world0 body_rmtree =
      (case body_rmtree box1 world1 of
         (r, s2, w2) \<Rightarrow>
           (case stop s2 w2 of
              (Inl e, s3, w3) \<Rightarrow> (Inl e, s3, w3)
            | (Inr u, s3, w3) \<Rightarrow> (r, s3, w3)))"
    by (simp add: with_statement_def MongoBox_enter_def MongoBox_exit_def start_box0)
  show ?thesis
    unfolding entered
    by (simp add: body_rmtree_def rmtree_def stop_def terminate_def wait_def Let_def running_def
        box1_def world1_def box0_def world0_def)
qed

end
